theory Spec2Isabelle
  imports Main "HOL-Library.Word"
begin

section \<open>Data model of the wallet library\<close>

type_synonym byte = "8 word"
type_synonym int32 = "32 word"

text \<open>
  Modelled from the spec: the error-code constants of the package (\<open>ErrInvalid\<close>,
  \<open>ErrWalletNotLoaded\<close>, ...) are declared in a file that is not part of the sources at
  hand; the error taxonomy of the specification lists them as distinct kinds, so they are
  the constructors of a datatype.
\<close>

datatype code =
    ErrEmptySeed
  | ErrInvalid
  | ErrInvalidAddress
  | ErrInvalidAuth
  | ErrInvalidPeers
  | ErrUnavailable
  | ErrContextCanceled
  | ErrNotConnected
  | ErrWalletNotLoaded
  | ErrSyncAlreadyInProgress

text \<open>
  Go \<open>error\<close> values. \<open>errors_New c\<close> and \<open>errors_E_code c\<close> are \<open>errors.New(c)\<close> and
  \<open>errors.E(c)\<close> on a code of the package, \<open>errors_E_err e\<close> is \<open>errors.E(e)\<close>,
  \<open>errors_E_fmt msg e\<close> is \<open>errors.E(msg, e)\<close>, \<open>fmt_Errorf\<close> is \<open>fmt.Errorf\<close>. The three sentinel values are the
  ones the source compares with \<open>==\<close>. \<open>foreign\<close> is any other error of a library.
  \<open>panic_nil_dereference\<close> is not a returned error: it marks the run-time panic of a method
  call through the nil \<open>lw.wallet\<close> pointer.
\<close>

datatype error =
    errors_New code
  | errors_E_code code
  | errors_E_err error
  | errors_E_fmt string error
  | fmt_Errorf string
  | context_Canceled
  | context_DeadlineExceeded
  | rpcclient_ErrInvalidAuth
  | foreign string
  | panic_nil_dereference

datatype RPCClient = RPCClient string string string "byte list" bool

type_synonym wref = nat
type_synonym ctxid = nat
type_synonym listener = nat

text \<open>
  The network backends the two sync functions build: the SPV syncer of a wallet with its
  persistent peers, and the backend made from an RPC client.
\<close>

datatype backend =
    SPVSyncer wref "string list"
  | BackendFromRPCClient RPCClient

text \<open>
  The part of \<open>wallet.Wallet\<close> (an external library) that the code reads and writes.
  \<open>lockCalls\<close> is a ghost counter of the invocations of \<open>Lock()\<close>.
\<close>

record Wallet =
  locked :: bool
  networkBackend :: "backend option"
  lockCalls :: nat

text \<open>
  The methods of the external wallet that the code calls. \<open>Lock()\<close> locks the wallet,
  \<open>SetNetworkBackend\<close> fills the single backend slot, and \<open>NetworkBackend()\<close> returns
  the backend together with an error, the error exactly when the slot is empty.
\<close>

definition Locked :: "Wallet \<Rightarrow> bool" where
  "Locked w = locked w"

definition Lock :: "Wallet \<Rightarrow> Wallet" where
  "Lock w = w\<lparr>locked := True, lockCalls := Suc (lockCalls w)\<rparr>"

definition wallet_SetNetworkBackend :: "backend \<Rightarrow> Wallet \<Rightarrow> Wallet" where
  "wallet_SetNetworkBackend b w = w\<lparr>networkBackend := Some b\<rparr>"

definition wallet_NetworkBackend :: "Wallet \<Rightarrow> backend option \<times> error option" where
  "wallet_NetworkBackend w =
     (case networkBackend w of
        None \<Rightarrow> (None, Some (foreign ''no network backend''))
      | Some b \<Rightarrow> (Some b, None))"

record Loader =
  loaded :: "wref option"
  loaderBackend :: "backend option"

definition LoadedWallet :: "Loader \<Rightarrow> wref option" where
  "LoadedWallet l = loaded l"

definition loader_SetNetworkBackend :: "backend \<Rightarrow> Loader \<Rightarrow> Loader" where
  "loader_SetNetworkBackend b l = l\<lparr>loaderBackend := Some b\<rparr>"

record NetParams =
  DefaultPort :: string
  JSONRPCClientPort :: string

datatype phase = PROGRESS | FINISH

text \<open>The calls a progress listener receives.\<close>

datatype callback =
    OnPeerDisconnected int
  | OnRescan int32 phase
  | OnSynced bool
  | OnSyncError int error

datatype task =
    SpvRunTask backend ctxid
  | RpcRunTask RPCClient ctxid
  | RescanTask "backend option"

text \<open>
  \<open>LibWallet\<close> with its embedded \<open>syncData\<close>. Wallet objects live in the store
  \<open>wallets\<close>; \<open>lw.wallet\<close> and the loader's loaded wallet are references into it, so
  that they may be the same object. The last five fields are the world around the
  library: the bytes the passphrase slices point into, the listener calls made so far
  (oldest first), the goroutines launched so far, the next fresh context, and the contexts
  whose cancel function has been called.
\<close>

record LibWallet =
  wallets :: "wref \<Rightarrow> Wallet"
  wallet :: "wref option"
  walletLoader :: Loader
  activeNet :: NetParams
  rpcClient :: "RPCClient option"
  cancelSync :: "ctxid option"
  syncProgressListeners :: "listener list"
  rescanning :: bool
  memory :: "byte list"
  trace :: "(listener \<times> callback) list"
  launched :: "task list"
  nextCtx :: ctxid
  canceled :: "ctxid list"

text \<open>
  The operations of external libraries and of files outside the sources at hand, taken as
  parameters: nothing is assumed about what they return.
\<close>

record Env =
  NormalizeAddress :: "string \<Rightarrow> string \<Rightarrow> error + string"
  NewRPCClient :: "string \<Rightarrow> string \<Rightarrow> string \<Rightarrow> byte list \<Rightarrow> bool \<Rightarrow> error + RPCClient"
  Start :: "RPCClient \<Rightarrow> ctxid \<Rightarrow> error option"
  errors_Match :: "error \<Rightarrow> error \<Rightarrow> bool"
  translateError :: "error \<Rightarrow> error"
  wallet_Unlock :: "Wallet \<Rightarrow> byte list \<Rightarrow> error option \<times> Wallet"
  wallet_ChangePrivatePassphrase :: "Wallet \<Rightarrow> byte list \<Rightarrow> byte list \<Rightarrow> error option \<times> Wallet"
  wallet_ChangePublicPassphrase :: "Wallet \<Rightarrow> byte list \<Rightarrow> byte list \<Rightarrow> error option \<times> Wallet"
  InsecurePubPassphrase :: "byte list"

section \<open>Passphrase buffers\<close>

text \<open>
  A Go byte slice is a window (offset, length) on the memory; two slices may overlap.
\<close>

type_synonym slice = "nat \<times> nat"

definition slice_bytes :: "slice \<Rightarrow> byte list \<Rightarrow> byte list" where
  "slice_bytes sl m = take (snd sl) (drop (fst sl) m)"

text \<open>\<open>for i := range buf { buf[i] = 0 }\<close>, from the first byte of the slice on.\<close>

fun zero_range :: "nat \<Rightarrow> nat \<Rightarrow> byte list \<Rightarrow> byte list" where
  "zero_range off 0 m = m"
| "zero_range off (Suc n) m = zero_range (Suc off) n (m[off := 0])"

definition wipe :: "slice \<Rightarrow> LibWallet \<Rightarrow> LibWallet" where
  "wipe sl lw = lw\<lparr>memory := zero_range (fst sl) (snd sl) (memory lw)\<rparr>"

text \<open>\<open>[]byte(s)\<close>: a fresh buffer holding the bytes of \<open>s\<close>.\<close>

definition alloc_bytes :: "byte list \<Rightarrow> LibWallet \<Rightarrow> slice \<times> LibWallet" where
  "alloc_bytes bs lw =
     ((length (memory lw), length bs), lw\<lparr>memory := memory lw @ bs\<rparr>)"

section \<open>wallet.go\<close>

definition UnlockWallet :: "Env \<Rightarrow> slice \<Rightarrow> LibWallet \<Rightarrow> error option \<times> LibWallet" where
  "UnlockWallet env privPass lw =
     (case LoadedWallet (walletLoader lw) of
        None \<Rightarrow> (Some (fmt_Errorf ''wallet has not been loaded''), lw)
      | Some r \<Rightarrow>
          (let (err, w') = wallet_Unlock env (wallets lw r) (slice_bytes privPass (memory lw));
               lw' = lw\<lparr>wallets := (wallets lw)(r := w')\<rparr>
           in (err, wipe privPass lw')))"

definition LockWallet :: "LibWallet \<Rightarrow> error option \<times> LibWallet" where
  "LockWallet lw =
     (case wallet lw of
        None \<Rightarrow> (Some panic_nil_dereference, lw)
      | Some r \<Rightarrow>
          (if Locked (wallets lw r)
           then (None, lw\<lparr>wallets := (wallets lw)(r := Lock (wallets lw r))\<rparr>)
           else (None, lw)))"

definition ChangePrivatePassphrase ::
  "Env \<Rightarrow> slice \<Rightarrow> slice \<Rightarrow> LibWallet \<Rightarrow> error option \<times> LibWallet" where
  "ChangePrivatePassphrase env oldPass newPass lw =
     (let (res, lw') =
        (case wallet lw of
           None \<Rightarrow> (Some panic_nil_dereference, lw)
         | Some r \<Rightarrow>
             (let (err, w') = wallet_ChangePrivatePassphrase env (wallets lw r)
                                (slice_bytes oldPass (memory lw)) (slice_bytes newPass (memory lw));
                  lw' = lw\<lparr>wallets := (wallets lw)(r := w')\<rparr>
              in (case err of
                    Some e \<Rightarrow> (Some (translateError env e), lw')
                  | None \<Rightarrow> (None, lw'))))
      in (res, wipe newPass (wipe oldPass lw')))"

text \<open>
  The deferred closure reads the variables \<open>oldPass\<close> and \<open>newPass\<close> when it runs, so
  after an empty passphrase has been replaced by the default one it wipes the
  replacement.
\<close>

definition ChangePublicPassphrase ::
  "Env \<Rightarrow> slice \<Rightarrow> slice \<Rightarrow> LibWallet \<Rightarrow> error option \<times> LibWallet" where
  "ChangePublicPassphrase env oldPass0 newPass0 lw0 =
     (let (oldPass, lw1) =
            (if snd oldPass0 = 0 then alloc_bytes (InsecurePubPassphrase env) lw0
             else (oldPass0, lw0));
          (newPass, lw2) =
            (if snd newPass0 = 0 then alloc_bytes (InsecurePubPassphrase env) lw1
             else (newPass0, lw1));
          (res, lw') =
            (case wallet lw2 of
               None \<Rightarrow> (Some panic_nil_dereference, lw2)
             | Some r \<Rightarrow>
                 (let (err, w') = wallet_ChangePublicPassphrase env (wallets lw2 r)
                                    (slice_bytes oldPass (memory lw2))
                                    (slice_bytes newPass (memory lw2));
                      lw3 = lw2\<lparr>wallets := (wallets lw2)(r := w')\<rparr>
                  in (case err of
                        Some e \<Rightarrow> (Some (translateError env e), lw3)
                      | None \<Rightarrow> (None, lw3))))
      in (res, wipe newPass (wipe oldPass lw')))"

section \<open>The sync layer\<close>

definition AddSyncProgressListener :: "listener \<Rightarrow> LibWallet \<Rightarrow> LibWallet" where
  "AddSyncProgressListener syncProgressListener lw =
     lw\<lparr>syncProgressListeners := syncProgressListeners lw @ [syncProgressListener]\<rparr>"

text \<open>One call made on every registered listener, in registration order.\<close>

definition broadcast :: "callback \<Rightarrow> LibWallet \<Rightarrow> LibWallet" where
  "broadcast cb lw =
     lw\<lparr>trace := trace lw @ map (\<lambda>l. (l, cb)) (syncProgressListeners lw)\<rparr>"

text \<open>
  Modelled from the spec: \<open>notifySyncError\<close> is defined in a file that is not part of the
  sources at hand. The broadcaster pushes each event to every listener synchronously, in
  registration order; here the event is \<open>OnSyncError(code, err)\<close>.
\<close>

definition notifySyncError :: "int \<Rightarrow> error \<Rightarrow> LibWallet \<Rightarrow> LibWallet" where
  "notifySyncError c err lw = broadcast (OnSyncError c err) lw"

text \<open>
  Modelled from the spec: \<open>contextWithShutdownCancel\<close> is defined in a file that is not
  part of the sources at hand. It gives a fresh cancellable context (also tied to
  process-wide shutdown) and its cancel function; both are named by the context's number.
\<close>

definition contextWithShutdownCancel :: "LibWallet \<Rightarrow> ctxid \<times> LibWallet" where
  "contextWithShutdownCancel lw = (nextCtx lw, lw\<lparr>nextCtx := Suc (nextCtx lw)\<rparr>)"

text \<open>\<open>strings.Split(s, sep)\<close> for a one-character separator.\<close>

fun strings_Split :: "string \<Rightarrow> char \<Rightarrow> string list" where
  "strings_Split [] sep = [[]]"
| "strings_Split (c # cs) sep =
     (if c = sep then [] # strings_Split cs sep
      else (case strings_Split cs sep of
              [] \<Rightarrow> [[c]]
            | w # ws \<Rightarrow> (c # w) # ws))"

definition getLoadedWalletForSyncing :: "LibWallet \<Rightarrow> error + wref" where
  "getLoadedWalletForSyncing lw =
     (case LoadedWallet (walletLoader lw) of
        Some r \<Rightarrow>
          (if fst (wallet_NetworkBackend (wallets lw r)) \<noteq> None
           then Inl (errors_New ErrSyncAlreadyInProgress)
           else Inr r)
      | None \<Rightarrow> Inl (errors_New ErrWalletNotLoaded))"

text \<open>The loop of \<open>SpvSync\<close> over the split addresses.\<close>

fun normalizePeers ::
  "Env \<Rightarrow> string list \<Rightarrow> string list \<Rightarrow> LibWallet \<Rightarrow> string list \<times> LibWallet" where
  "normalizePeers env [] validPeerAddresses lw = (validPeerAddresses, lw)"
| "normalizePeers env (address # addresses) validPeerAddresses lw =
     (case NormalizeAddress env address (DefaultPort (activeNet lw)) of
        Inl err \<Rightarrow>
          normalizePeers env addresses validPeerAddresses
            (notifySyncError 3 (errors_E_fmt ''SPV peer address invalid: %v'' err) lw)
      | Inr peerAddress \<Rightarrow>
          normalizePeers env addresses (validPeerAddresses @ [peerAddress]) lw)"

definition SetPersistantPeers :: "string list \<Rightarrow> backend \<Rightarrow> backend" where
  "SetPersistantPeers peers b =
     (case b of SPVSyncer r _ \<Rightarrow> SPVSyncer r peers | _ \<Rightarrow> b)"

text \<open>Both sync functions attach the backend to the loaded wallet and to the loader.\<close>

definition attachBackend :: "wref \<Rightarrow> backend \<Rightarrow> LibWallet \<Rightarrow> LibWallet" where
  "attachBackend r b lw =
     lw\<lparr>wallets := (wallets lw)(r := wallet_SetNetworkBackend b (wallets lw r)),
        walletLoader := loader_SetNetworkBackend b (walletLoader lw)\<rparr>"

definition SpvSync :: "Env \<Rightarrow> string \<Rightarrow> LibWallet \<Rightarrow> error option \<times> LibWallet" where
  "SpvSync env peerAddresses lw =
     (case getLoadedWalletForSyncing lw of
        Inl err \<Rightarrow> (Some err, lw)
      | Inr loadedW \<Rightarrow>
          (let (validPeerAddresses, lw1) =
                 (if peerAddresses \<noteq> []
                  then normalizePeers env (strings_Split peerAddresses CHR '';'') [] lw
                  else ([], lw))
           in if peerAddresses \<noteq> [] \<and> length validPeerAddresses = 0
              then (Some (errors_New ErrInvalidPeers), lw1)
              else
                (let syncer0 = SPVSyncer loadedW [];
                     syncer = (if length validPeerAddresses > 0
                               then SetPersistantPeers validPeerAddresses syncer0
                               else syncer0);
                     lw2 = attachBackend loadedW syncer lw1;
                     (ctx, lw3) = contextWithShutdownCancel lw2;
                     lw4 = lw3\<lparr>cancelSync := Some ctx\<rparr>
                 in (None, lw4\<lparr>launched := launched lw4 @ [SpvRunTask syncer ctx]\<rparr>))))"

text \<open>
  The goroutine of \<open>SpvSync\<close>, from the moment \<open>syncer.Run\<close> has returned \<open>err\<close>.
\<close>

definition SpvSync_goroutine :: "error option \<Rightarrow> LibWallet \<Rightarrow> LibWallet" where
  "SpvSync_goroutine err lw =
     (case err of
        None \<Rightarrow> lw
      | Some e \<Rightarrow>
          (if e = context_Canceled
           then notifySyncError 1 (errors_E_fmt ''SPV synchronization canceled: %v'' e) lw
           else if e = context_DeadlineExceeded
           then notifySyncError 2 (errors_E_fmt ''SPV synchronization deadline exceeded: %v'' e) lw
           else notifySyncError (- 1) e lw))"

definition connectToRpcClient ::
  "Env \<Rightarrow> ctxid \<Rightarrow> string \<Rightarrow> string \<Rightarrow> string \<Rightarrow> byte list \<Rightarrow> LibWallet
     \<Rightarrow> (error + RPCClient) \<times> LibWallet" where
  "connectToRpcClient env ctx networkAddress username password cert lw =
     (case rpcClient lw of
        Some chainClient \<Rightarrow> (Inr chainClient, lw)
      | None \<Rightarrow>
          (case NormalizeAddress env networkAddress (JSONRPCClientPort (activeNet lw)) of
             Inl err \<Rightarrow> (Inl (errors_New ErrInvalidAddress), lw)
           | Inr networkAddress' \<Rightarrow>
               (case NewRPCClient env networkAddress' username password cert (length cert = 0) of
                  Inl err \<Rightarrow> (Inl (translateError env err), lw)
                | Inr chainClient \<Rightarrow>
                    (case Start env chainClient ctx of
                       Some err \<Rightarrow>
                         (if err = rpcclient_ErrInvalidAuth
                          then (Inl (errors_New ErrInvalid), lw)
                          else if errors_Match env (errors_E_err context_Canceled) err
                          then (Inl (errors_New ErrContextCanceled), lw)
                          else (Inl (errors_New ErrUnavailable), lw))
                     | None \<Rightarrow> (Inr chainClient, lw\<lparr>rpcClient := Some chainClient\<rparr>)))))"

definition RpcSync ::
  "Env \<Rightarrow> string \<Rightarrow> string \<Rightarrow> string \<Rightarrow> byte list \<Rightarrow> LibWallet \<Rightarrow> error option \<times> LibWallet" where
  "RpcSync env networkAddress username password cert lw =
     (case getLoadedWalletForSyncing lw of
        Inl err \<Rightarrow> (Some err, lw)
      | Inr loadedW \<Rightarrow>
          (let (ctx, lw1) = contextWithShutdownCancel lw;
               lw2 = lw1\<lparr>cancelSync := Some ctx\<rparr>;
               (res, lw3) = connectToRpcClient env ctx networkAddress username password cert lw2
           in (case res of
                 Inl err \<Rightarrow> (Some err, lw3)
               | Inr chainClient \<Rightarrow>
                   (let netBackend = BackendFromRPCClient chainClient;
                        lw4 = attachBackend loadedW netBackend lw3;
                        lw5 = broadcast (OnPeerDisconnected (- 1)) lw4
                    in (None, lw5\<lparr>launched := launched lw5 @ [RpcRunTask chainClient ctx]\<rparr>)))))"

text \<open>
  The goroutine of \<open>RpcSync\<close>, from the moment \<open>syncer.Run\<close> has returned \<open>err\<close>.
\<close>

definition RpcSync_goroutine :: "error option \<Rightarrow> LibWallet \<Rightarrow> LibWallet" where
  "RpcSync_goroutine err lw =
     (case err of
        None \<Rightarrow> lw
      | Some e \<Rightarrow>
          (if e = context_Canceled
           then notifySyncError 1 (errors_E_fmt ''SPV synchronization canceled: %v'' e) lw
           else if e = context_DeadlineExceeded
           then notifySyncError 2 (errors_E_fmt ''SPV synchronization deadline exceeded: %v'' e) lw
           else notifySyncError (- 1) e lw))"

definition CancelSync :: "LibWallet \<Rightarrow> LibWallet" where
  "CancelSync lw =
     (let lw1 = (case cancelSync lw of
                   Some c \<Rightarrow> lw\<lparr>canceled := canceled lw @ [c]\<rparr>
                 | None \<Rightarrow> lw)
      in broadcast (OnSynced False) lw1)"

subsection \<open>Rescan\<close>

record RescanProgress =
  Err :: "error option"
  ScannedThrough :: int32

definition RescanBlocks :: "LibWallet \<Rightarrow> error option \<times> LibWallet" where
  "RescanBlocks lw =
     (case wallet lw of
        None \<Rightarrow> (Some panic_nil_dereference, lw)
      | Some r \<Rightarrow>
          (case wallet_NetworkBackend (wallets lw r) of
             (_, Some err) \<Rightarrow> (Some (errors_E_code ErrNotConnected), lw)
           | (netBackend, None) \<Rightarrow>
               (if rescanning lw then (Some (errors_E_code ErrInvalid), lw)
                else (None, lw\<lparr>launched := launched lw @ [RescanTask netBackend]\<rparr>))))"

text \<open>
  \<open>for p := range progress\<close> over the items the channel delivers before it is closed.
  The result says whether the loop ended because the channel was closed (\<open>True\<close>) or
  because an item carried an error and the goroutine returned (\<open>False\<close>). \<open>totalHeight\<close>
  is an \<open>int32\<close>: the addition wraps around.
\<close>

fun rescanLoop ::
  "RescanProgress list \<Rightarrow> int32 \<Rightarrow> LibWallet \<Rightarrow> bool \<times> int32 \<times> LibWallet" where
  "rescanLoop [] totalHeight lw = (True, totalHeight, lw)"
| "rescanLoop (p # ps) totalHeight lw =
     (if Err p \<noteq> None then (False, totalHeight, lw)
      else rescanLoop ps (totalHeight + ScannedThrough p)
             (broadcast (OnRescan (ScannedThrough p) PROGRESS) lw))"

text \<open>
  The goroutine of \<open>RescanBlocks\<close>. \<open>items\<close> are the progress items delivered before the
  channel is closed, \<open>ctxDone\<close> says whether the context is done when the \<open>select\<close>
  runs. The deferred function clears the flag last.
\<close>

definition RescanBlocks_goroutine :: "RescanProgress list \<Rightarrow> bool \<Rightarrow> LibWallet \<Rightarrow> LibWallet" where
  "RescanBlocks_goroutine items ctxDone lw =
     (let lw1 = lw\<lparr>rescanning := True\<rparr>;
          (ctx, lw2) = contextWithShutdownCancel lw1;
          (closed, totalHeight, lw3) = rescanLoop items 0 lw2;
          lw4 = (if \<not> closed then lw3
                 else if ctxDone then broadcast (OnRescan totalHeight PROGRESS) lw3
                 else broadcast (OnRescan totalHeight FINISH) lw3)
      in lw4\<lparr>rescanning := False\<rparr>)"

section \<open>Observations\<close>

text \<open>Every byte of the slice is zero.\<close>

definition all_zero :: "slice \<Rightarrow> byte list \<Rightarrow> bool" where
  "all_zero sl m = (slice_bytes sl m = replicate (snd sl) 0)"

text \<open>The listener calls made between an earlier state and a later one.\<close>

definition emitted :: "LibWallet \<Rightarrow> LibWallet \<Rightarrow> (listener \<times> callback) list" where
  "emitted lw lw' = drop (length (trace lw)) (trace lw')"

text \<open>Whether a backend is attached to the wallet \<open>r\<close> or to the loader.\<close>

definition attached :: "wref \<Rightarrow> LibWallet \<Rightarrow> backend option \<times> backend option" where
  "attached r lw = (networkBackend (wallets lw r), loaderBackend (walletLoader lw))"

text \<open>One call \<open>cb\<close> on every registered listener, in registration order.\<close>

definition to_all :: "LibWallet \<Rightarrow> callback \<Rightarrow> (listener \<times> callback) list" where
  "to_all lw cb = map (\<lambda>l. (l, cb)) (syncProgressListeners lw)"

text \<open>
  What the peer-address loop of \<open>SpvSync\<close> is expected to do with a list of addresses:
  the result of normalising one address against the default port of the network, the
  normalised forms of the entries that normalise (in order), and the error notifications
  for the entries that do not.
\<close>

definition peerResult :: "Env \<Rightarrow> LibWallet \<Rightarrow> string \<Rightarrow> error + string" where
  "peerResult env lw address = NormalizeAddress env address (DefaultPort (activeNet lw))"

definition validPeers :: "Env \<Rightarrow> LibWallet \<Rightarrow> string list \<Rightarrow> string list" where
  "validPeers env lw addresses =
     map (\<lambda>a. projr (peerResult env lw a)) (filter (\<lambda>a. \<not> isl (peerResult env lw a)) addresses)"

definition peerErrors :: "Env \<Rightarrow> LibWallet \<Rightarrow> string list \<Rightarrow> (listener \<times> callback) list" where
  "peerErrors env lw addresses =
     concat (map (\<lambda>a. case peerResult env lw a of
                         Inl err \<Rightarrow> to_all lw (OnSyncError 3
                                      (errors_E_fmt ''SPV peer address invalid: %v'' err))
                       | Inr peerAddress \<Rightarrow> [])
                 addresses)"

text \<open>The progress calls of a rescan: one round over the listeners for each item.\<close>

definition rescanProgressCalls :: "LibWallet \<Rightarrow> RescanProgress list \<Rightarrow> (listener \<times> callback) list" where
  "rescanProgressCalls lw items =
     concat (map (\<lambda>p. to_all lw (OnRescan (ScannedThrough p) PROGRESS)) items)"

section \<open>A concrete wallet and environment\<close>

text \<open>
  A small environment on which the functions can be run: an address normalises unless it
  is empty or holds a blank, the server accepts one password, the wallet accepts one
  private passphrase. \<open>Start\<close> reports a rejected password the way the client library
  does, as the sentinel \<open>rpcclient.ErrInvalidAuth\<close> wrapped by \<open>errors.E\<close>, and
  \<open>errors.Match\<close> compares what two wrapped errors wrap.
\<close>

definition example_env :: Env where
  "example_env =
     \<lparr>NormalizeAddress = (\<lambda>a port.
          if a = [] \<or> CHR '' '' \<in> set a then Inl (foreign ''bad address'')
          else if CHR '':'' \<in> set a then Inr a
          else Inr (a @ '':'' @ port)),
      NewRPCClient = (\<lambda>a u p c tls. Inr (RPCClient a u p c tls)),
      Start = (\<lambda>c ctx. case c of RPCClient a u p crt tls \<Rightarrow>
          if p = ''secret'' then None else Some (errors_E_err rpcclient_ErrInvalidAuth)),
      errors_Match = (\<lambda>t e. case (t, e) of
          (errors_E_err x, errors_E_err y) \<Rightarrow> x = y
        | _ \<Rightarrow> False),
      translateError = (\<lambda>e. e),
      wallet_Unlock = (\<lambda>w pass.
          if pass = [112, 119] then (None, w\<lparr>locked := False\<rparr>)
          else (Some (foreign ''invalid passphrase''), w)),
      wallet_ChangePrivatePassphrase = (\<lambda>w old new.
          if old = [112, 119] then (None, w)
          else (Some (foreign ''invalid passphrase''), w)),
      wallet_ChangePublicPassphrase = (\<lambda>w old new. (None, w)),
      InsecurePubPassphrase = [112, 117, 98, 108, 105, 99]\<rparr>"

text \<open>The same environment with a \<open>Start\<close> that hands the sentinel back unwrapped.\<close>

definition example_env_bare :: Env where
  "example_env_bare =
     example_env\<lparr>Start := (\<lambda>c ctx. case c of RPCClient a u p crt tls \<Rightarrow>
          if p = ''secret'' then None else Some rpcclient_ErrInvalidAuth)\<rparr>"

definition example_wallet :: Wallet where
  "example_wallet = \<lparr>locked = True, networkBackend = None, lockCalls = 0\<rparr>"

text \<open>
  An opened and loaded wallet, locked, no backend attached, two listeners registered, and
  a four-byte memory whose first two bytes are a passphrase.
\<close>

definition example_lw :: LibWallet where
  "example_lw =
     \<lparr>wallets = (\<lambda>r. example_wallet),
      wallet = Some 0,
      walletLoader = \<lparr>loaded = Some 0, loaderBackend = None\<rparr>,
      activeNet = \<lparr>DefaultPort = ''9108'', JSONRPCClientPort = ''9109''\<rparr>,
      rpcClient = None,
      cancelSync = None,
      syncProgressListeners = [0, 1],
      rescanning = False,
      memory = [112, 119, 0, 0],
      trace = [],
      launched = [],
      nextCtx = 0,
      canceled = []\<rparr>"

text \<open>The same library before any wallet has been loaded.\<close>

definition example_unloaded :: LibWallet where
  "example_unloaded = example_lw\<lparr>walletLoader := \<lparr>loaded = None, loaderBackend = None\<rparr>\<rparr>"

text \<open>The same library with the wallet unlocked.\<close>

definition example_unlocked :: LibWallet where
  "example_unlocked = example_lw\<lparr>wallets := (\<lambda>r. example_wallet\<lparr>locked := False\<rparr>)\<rparr>"

section \<open>Passphrase wiping\<close>

lemma length_zero_range: "length (zero_range off n m) = length m"
  by (induction n arbitrary: off m) simp_all

lemma zero_range_nth:
  "i < length m \<Longrightarrow> zero_range off n m ! i = (if off \<le> i \<and> i < off + n then 0 else m ! i)"
  by (induction n arbitrary: off m) (auto simp: length_zero_range nth_list_update)

lemma all_zero_iff:
  "fst sl + snd sl \<le> length m \<Longrightarrow> all_zero sl m = (\<forall>i < snd sl. m ! (fst sl + i) = 0)"
  by (auto simp: all_zero_def slice_bytes_def list_eq_iff_nth_eq)

lemma all_zero_empty: "snd sl = 0 \<Longrightarrow> all_zero sl m"
  by (simp add: all_zero_def slice_bytes_def)

lemma memory_wipe_length: "length (memory (wipe sl lw)) = length (memory lw)"
  by (simp add: wipe_def length_zero_range)

lemma all_zero_after_wipe:
  "fst sl + snd sl \<le> length (memory lw) \<Longrightarrow> all_zero sl (memory (wipe sl lw))"
  by (simp add: all_zero_iff memory_wipe_length) (simp add: wipe_def zero_range_nth)

lemma all_zero_wipe2:
  assumes "fst sl + snd sl \<le> length (memory lw)" and "sl = a \<or> sl = b"
  shows "all_zero sl (memory (wipe b (wipe a lw)))"
proof -
  have "\<forall>i < snd sl. memory (wipe b (wipe a lw)) ! (fst sl + i) = 0"
    using assms by (auto simp: wipe_def zero_range_nth length_zero_range)
  then show ?thesis
    using assms(1) by (simp add: all_zero_iff memory_wipe_length)
qed

text \<open>Once a wallet is loaded, \<open>UnlockWallet\<close> wipes the passphrase whatever \<open>Unlock\<close> returns.\<close>

lemma UnlockWallet_loaded_wipes:
  assumes "LoadedWallet (walletLoader lw) = Some r"
    and "fst privPass + snd privPass \<le> length (memory lw)"
  shows "all_zero privPass (memory (snd (UnlockWallet env privPass lw)))"
proof -
  obtain err w' where u: "wallet_Unlock env (wallets lw r) (slice_bytes privPass (memory lw)) = (err, w')"
    by fastforce
  have "snd (UnlockWallet env privPass lw) = wipe privPass (lw\<lparr>wallets := (wallets lw)(r := w')\<rparr>)"
    using assms(1) u by (simp add: UnlockWallet_def)
  then show ?thesis
    using assms(2) by (simp add: all_zero_after_wipe)
qed

lemma ChangePrivatePassphrase_memory:
  "memory (snd (ChangePrivatePassphrase env oldPass newPass lw))
     = memory (wipe newPass (wipe oldPass lw))"
  by (simp add: ChangePrivatePassphrase_def wipe_def Let_def split: prod.splits option.splits)

lemma ChangePrivatePassphrase_wipes:
  assumes "fst oldPass + snd oldPass \<le> length (memory lw)"
    and "fst newPass + snd newPass \<le> length (memory lw)"
  shows "all_zero oldPass (memory (snd (ChangePrivatePassphrase env oldPass newPass lw)))
       \<and> all_zero newPass (memory (snd (ChangePrivatePassphrase env oldPass newPass lw)))"
  using assms by (simp add: ChangePrivatePassphrase_memory all_zero_wipe2)

lemma ChangePublicPassphrase_memory:
  "\<exists>a b bs. memory (snd (ChangePublicPassphrase env oldPass newPass lw))
             = memory (wipe b (wipe a (lw\<lparr>memory := memory lw @ bs\<rparr>)))
         \<and> (snd oldPass \<noteq> 0 \<longrightarrow> a = oldPass) \<and> (snd newPass \<noteq> 0 \<longrightarrow> b = newPass)"
proof -
  let ?d = "InsecurePubPassphrase env"
  let ?m = "memory (snd (ChangePublicPassphrase env oldPass newPass lw))"
  consider (ee) "snd oldPass = 0" "snd newPass = 0" | (en) "snd oldPass = 0" "snd newPass \<noteq> 0"
    | (ne) "snd oldPass \<noteq> 0" "snd newPass = 0" | (nn) "snd oldPass \<noteq> 0" "snd newPass \<noteq> 0"
    by blast
  then show ?thesis
  proof cases
    case ee
    then have "?m = memory (wipe (length (memory lw) + length ?d, length ?d)
                 (wipe (length (memory lw), length ?d) (lw\<lparr>memory := memory lw @ (?d @ ?d)\<rparr>)))"
      by (simp add: ChangePublicPassphrase_def alloc_bytes_def wipe_def Let_def
               split: prod.splits option.splits)
    with ee show ?thesis by blast
  next
    case en
    then have "?m = memory (wipe newPass
                 (wipe (length (memory lw), length ?d) (lw\<lparr>memory := memory lw @ ?d\<rparr>)))"
      by (simp add: ChangePublicPassphrase_def alloc_bytes_def wipe_def Let_def
               split: prod.splits option.splits)
    with en show ?thesis by blast
  next
    case ne
    then have "?m = memory (wipe (length (memory lw), length ?d)
                 (wipe oldPass (lw\<lparr>memory := memory lw @ ?d\<rparr>)))"
      by (simp add: ChangePublicPassphrase_def alloc_bytes_def wipe_def Let_def
               split: prod.splits option.splits)
    with ne show ?thesis by blast
  next
    case nn
    then have "?m = memory (wipe newPass (wipe oldPass (lw\<lparr>memory := memory lw @ []\<rparr>)))"
      by (simp add: ChangePublicPassphrase_def alloc_bytes_def wipe_def Let_def
               split: prod.splits option.splits)
    with nn show ?thesis by blast
  qed
qed

lemma ChangePublicPassphrase_wipes:
  assumes "fst oldPass + snd oldPass \<le> length (memory lw)"
    and "fst newPass + snd newPass \<le> length (memory lw)"
  shows "all_zero oldPass (memory (snd (ChangePublicPassphrase env oldPass newPass lw)))
       \<and> all_zero newPass (memory (snd (ChangePublicPassphrase env oldPass newPass lw)))"
proof -
  obtain a b bs where m: "memory (snd (ChangePublicPassphrase env oldPass newPass lw))
             = memory (wipe b (wipe a (lw\<lparr>memory := memory lw @ bs\<rparr>)))"
    and a: "snd oldPass \<noteq> 0 \<longrightarrow> a = oldPass" and b: "snd newPass \<noteq> 0 \<longrightarrow> b = newPass"
    using ChangePublicPassphrase_memory by blast
  have "all_zero oldPass (memory (wipe b (wipe a (lw\<lparr>memory := memory lw @ bs\<rparr>))))"
    using assms(1) a by (cases "snd oldPass = 0") (auto intro: all_zero_empty all_zero_wipe2)
  moreover have "all_zero newPass (memory (wipe b (wipe a (lw\<lparr>memory := memory lw @ bs\<rparr>))))"
    using assms(2) b by (cases "snd newPass = 0") (auto intro: all_zero_empty all_zero_wipe2)
  ultimately show ?thesis using m by simp
qed

text \<open>
  C1. Every passphrase buffer passed to \<open>UnlockWallet\<close>, \<open>ChangePrivatePassphrase\<close> or
  \<open>ChangePublicPassphrase\<close> should be all zero when the call returns, on every exit
  path. \<open>UnlockWallet\<close> returns before its deferred wipe is registered when no wallet is
  loaded: on that path the two passphrase bytes 112, 119 are still in the buffer after
  the call, and the state is untouched.
\<close>

theorem UnlockWallet_not_loaded_keeps_passphrase:
  "UnlockWallet env (0, 2) example_unloaded
     = (Some (fmt_Errorf ''wallet has not been loaded''), example_unloaded)
   \<and> slice_bytes (0, 2) (memory (snd (UnlockWallet env (0, 2) example_unloaded))) = [112, 119]
   \<and> \<not> all_zero (0, 2) (memory (snd (UnlockWallet env (0, 2) example_unloaded)))"
proof -
  have r: "replicate 2 (0::byte) = [0, 0]"
    by (simp add: numeral_2_eq_2)
  show ?thesis
    by (simp add: UnlockWallet_def LoadedWallet_def example_unloaded_def example_lw_def
          slice_bytes_def all_zero_def r)
qed

section \<open>Locking\<close>

text \<open>\<open>LockWallet\<close> calls \<open>Lock\<close> exactly when \<open>Locked()\<close> answers true.\<close>

lemma LockWallet_calls_Lock_iff:
  assumes "wallet lw = Some r"
  shows "lockCalls (wallets (snd (LockWallet lw)) r)
           = (if Locked (wallets lw r) then Suc (lockCalls (wallets lw r))
              else lockCalls (wallets lw r))"
  using assms by (simp add: LockWallet_def Lock_def)

text \<open>
  C2. \<open>LockWallet\<close> should invoke \<open>Lock\<close> exactly when the wallet is unlocked. On the
  unlocked example wallet it returns without a call to \<open>Lock\<close> and the wallet stays
  unlocked; on the locked one it calls \<open>Lock\<close> once.
\<close>

theorem LockWallet_unlocked_stays_unlocked:
  "LockWallet example_unlocked = (None, example_unlocked)
   \<and> \<not> Locked (wallets (snd (LockWallet example_unlocked)) 0)
   \<and> lockCalls (wallets (snd (LockWallet example_unlocked)) 0) = 0
   \<and> Locked (wallets example_lw 0)
   \<and> lockCalls (wallets (snd (LockWallet example_lw)) 0) = 1"
  by (simp add: LockWallet_def Locked_def Lock_def example_unlocked_def example_lw_def
        example_wallet_def)

section \<open>Starting a sync\<close>

lemma getLoaded_cases:
  "getLoadedWalletForSyncing lw =
     (case loaded (walletLoader lw) of
        None \<Rightarrow> Inl (errors_New ErrWalletNotLoaded)
      | Some r \<Rightarrow> (case networkBackend (wallets lw r) of
                    None \<Rightarrow> Inr r
                  | Some b \<Rightarrow> Inl (errors_New ErrSyncAlreadyInProgress)))"
  by (simp add: getLoadedWalletForSyncing_def LoadedWallet_def wallet_NetworkBackend_def
           split: option.splits)

lemma broadcast_fields [simp]:
  "wallets (broadcast cb lw) = wallets lw"
  "wallet (broadcast cb lw) = wallet lw"
  "walletLoader (broadcast cb lw) = walletLoader lw"
  "activeNet (broadcast cb lw) = activeNet lw"
  "rpcClient (broadcast cb lw) = rpcClient lw"
  "cancelSync (broadcast cb lw) = cancelSync lw"
  "syncProgressListeners (broadcast cb lw) = syncProgressListeners lw"
  "rescanning (broadcast cb lw) = rescanning lw"
  "memory (broadcast cb lw) = memory lw"
  "launched (broadcast cb lw) = launched lw"
  "nextCtx (broadcast cb lw) = nextCtx lw"
  "canceled (broadcast cb lw) = canceled lw"
  "trace (broadcast cb lw) = trace lw @ map (\<lambda>l. (l, cb)) (syncProgressListeners lw)"
  by (simp_all add: broadcast_def)

lemma SpvSync_guard_fails:
  "getLoadedWalletForSyncing lw = Inl e \<Longrightarrow> SpvSync env peerAddresses lw = (Some e, lw)"
  by (simp add: SpvSync_def)

lemma RpcSync_guard_fails:
  "getLoadedWalletForSyncing lw = Inl e \<Longrightarrow> RpcSync env a u p cert lw = (Some e, lw)"
  by (simp add: RpcSync_def)

lemma normalizePeers_fields [simp]:
  "wallets (snd (normalizePeers env as acc lw)) = wallets lw"
  "wallet (snd (normalizePeers env as acc lw)) = wallet lw"
  "walletLoader (snd (normalizePeers env as acc lw)) = walletLoader lw"
  "activeNet (snd (normalizePeers env as acc lw)) = activeNet lw"
  "rpcClient (snd (normalizePeers env as acc lw)) = rpcClient lw"
  "cancelSync (snd (normalizePeers env as acc lw)) = cancelSync lw"
  "syncProgressListeners (snd (normalizePeers env as acc lw)) = syncProgressListeners lw"
  "rescanning (snd (normalizePeers env as acc lw)) = rescanning lw"
  "launched (snd (normalizePeers env as acc lw)) = launched lw"
  "nextCtx (snd (normalizePeers env as acc lw)) = nextCtx lw"
  "canceled (snd (normalizePeers env as acc lw)) = canceled lw"
  by (induction env as acc lw rule: normalizePeers.induct;
      simp add: notifySyncError_def split: sum.splits)+

text \<open>What a successful SpvSync leaves behind.\<close>

lemma SpvSync_success:
  assumes "fst (SpvSync env peerAddresses lw) = None"
  shows "\<exists>r peers. getLoadedWalletForSyncing lw = Inr r
          \<and> attached r (snd (SpvSync env peerAddresses lw))
              = (Some (SPVSyncer r peers), Some (SPVSyncer r peers))
          \<and> (\<forall>r'. r' \<noteq> r \<longrightarrow> wallets (snd (SpvSync env peerAddresses lw)) r' = wallets lw r')
          \<and> loaded (walletLoader (snd (SpvSync env peerAddresses lw))) = loaded (walletLoader lw)
          \<and> cancelSync (snd (SpvSync env peerAddresses lw)) = Some (nextCtx lw)
          \<and> launched (snd (SpvSync env peerAddresses lw))
              = launched lw @ [SpvRunTask (SPVSyncer r peers) (nextCtx lw)]"
proof (cases "getLoadedWalletForSyncing lw")
  case (Inl e)
  with assms show ?thesis by (simp add: SpvSync_guard_fails)
next
  case (Inr r)
  obtain valid lw1 where n: "(if peerAddresses \<noteq> []
                  then normalizePeers env (strings_Split peerAddresses CHR '';'') [] lw
                  else ([], lw)) = (valid, lw1)" by fastforce
  have f: "wallets lw1 = wallets lw" "walletLoader lw1 = walletLoader lw"
      "launched lw1 = launched lw" "nextCtx lw1 = nextCtx lw"
  proof -
    have "lw1 = lw \<or> lw1 = snd (normalizePeers env (strings_Split peerAddresses CHR '';'') [] lw)"
      using n by (auto split: if_splits)
    then show "wallets lw1 = wallets lw" "walletLoader lw1 = walletLoader lw"
      "launched lw1 = launched lw" "nextCtx lw1 = nextCtx lw"
      by auto
  qed
  have ok: "\<not> (peerAddresses \<noteq> [] \<and> length valid = 0)"
    using assms Inr n by (auto simp: SpvSync_def)
  show ?thesis
    using Inr n ok f
    by (auto simp: SpvSync_def attached_def attachBackend_def contextWithShutdownCancel_def
          wallet_SetNetworkBackend_def loader_SetNetworkBackend_def SetPersistantPeers_def Let_def
          simp del: length_0_conv)
qed

lemma connectToRpcClient_fields [simp]:
  "wallets (snd (connectToRpcClient env ctx a u p cert lw)) = wallets lw"
  "walletLoader (snd (connectToRpcClient env ctx a u p cert lw)) = walletLoader lw"
  "cancelSync (snd (connectToRpcClient env ctx a u p cert lw)) = cancelSync lw"
  "syncProgressListeners (snd (connectToRpcClient env ctx a u p cert lw)) = syncProgressListeners lw"
  "launched (snd (connectToRpcClient env ctx a u p cert lw)) = launched lw"
  "trace (snd (connectToRpcClient env ctx a u p cert lw)) = trace lw"
  "nextCtx (snd (connectToRpcClient env ctx a u p cert lw)) = nextCtx lw"
  by (simp_all add: connectToRpcClient_def split: option.splits sum.splits)

lemma RpcSync_success:
  assumes "fst (RpcSync env a u p cert lw) = None"
  shows "\<exists>r c. getLoadedWalletForSyncing lw = Inr r
          \<and> attached r (snd (RpcSync env a u p cert lw))
              = (Some (BackendFromRPCClient c), Some (BackendFromRPCClient c))
          \<and> (\<forall>r'. r' \<noteq> r \<longrightarrow> wallets (snd (RpcSync env a u p cert lw)) r' = wallets lw r')
          \<and> loaded (walletLoader (snd (RpcSync env a u p cert lw))) = loaded (walletLoader lw)
          \<and> cancelSync (snd (RpcSync env a u p cert lw)) = Some (nextCtx lw)
          \<and> launched (snd (RpcSync env a u p cert lw)) = launched lw @ [RpcRunTask c (nextCtx lw)]"
proof (cases "getLoadedWalletForSyncing lw")
  case (Inl e)
  with assms show ?thesis by (simp add: RpcSync_guard_fails)
next
  case (Inr r)
  let ?lw2 = "lw\<lparr>nextCtx := Suc (nextCtx lw), cancelSync := Some (nextCtx lw)\<rparr>"
  obtain res lw3 where c: "connectToRpcClient env (nextCtx lw) a u p cert ?lw2 = (res, lw3)"
    by fastforce
  have f: "wallets lw3 = wallets lw" "walletLoader lw3 = walletLoader lw"
      "launched lw3 = launched lw" "cancelSync lw3 = Some (nextCtx lw)"
    using connectToRpcClient_fields[of env "nextCtx lw" a u p cert ?lw2] c by simp_all
  from assms Inr c obtain cl where r: "res = Inr cl"
    by (cases res) (auto simp: RpcSync_def contextWithShutdownCancel_def)
  show ?thesis
    using Inr c r f
    by (auto simp: RpcSync_def attached_def attachBackend_def contextWithShutdownCancel_def
          wallet_SetNetworkBackend_def loader_SetNetworkBackend_def Let_def)
qed

text \<open>
  C4. Starting a sync (\<open>SpvSync\<close> or \<open>RpcSync\<close>) when no wallet is loaded returns
  \<open>ErrWalletNotLoaded\<close>; starting one when the loaded wallet has a backend attached
  returns \<open>ErrSyncAlreadyInProgress\<close>; both leave the state as it was. A start that
  succeeds found the loaded wallet without a backend and leaves one backend, the same one,
  in the slot of that wallet and in the slot of the loader, touching no other wallet; a
  further start then fails with \<open>ErrSyncAlreadyInProgress\<close>.
\<close>

theorem sync_start_guard:
  "(loaded (walletLoader lw) = None \<longrightarrow>
       SpvSync env peerAddresses lw = (Some (errors_New ErrWalletNotLoaded), lw)
     \<and> RpcSync env a u p cert lw = (Some (errors_New ErrWalletNotLoaded), lw))
   \<and> (loaded (walletLoader lw) = Some r \<and> networkBackend (wallets lw r) = Some b \<longrightarrow>
       SpvSync env peerAddresses lw = (Some (errors_New ErrSyncAlreadyInProgress), lw)
     \<and> RpcSync env a u p cert lw = (Some (errors_New ErrSyncAlreadyInProgress), lw))
   \<and> (fst (SpvSync env peerAddresses lw) = None \<longrightarrow>
       (\<exists>r' b'. loaded (walletLoader lw) = Some r' \<and> networkBackend (wallets lw r') = None
          \<and> attached r' (snd (SpvSync env peerAddresses lw)) = (Some b', Some b')
          \<and> (\<forall>x. x \<noteq> r' \<longrightarrow> wallets (snd (SpvSync env peerAddresses lw)) x = wallets lw x)
          \<and> fst (SpvSync env peerAddresses2 (snd (SpvSync env peerAddresses lw)))
               = Some (errors_New ErrSyncAlreadyInProgress)))
   \<and> (fst (RpcSync env a u p cert lw) = None \<longrightarrow>
       (\<exists>r' b'. loaded (walletLoader lw) = Some r' \<and> networkBackend (wallets lw r') = None
          \<and> attached r' (snd (RpcSync env a u p cert lw)) = (Some b', Some b')
          \<and> (\<forall>x. x \<noteq> r' \<longrightarrow> wallets (snd (RpcSync env a u p cert lw)) x = wallets lw x)
          \<and> fst (RpcSync env a2 u2 p2 cert2 (snd (RpcSync env a u p cert lw)))
               = Some (errors_New ErrSyncAlreadyInProgress)))"
proof (intro conjI impI)
  assume "loaded (walletLoader lw) = None"
  then have g: "getLoadedWalletForSyncing lw = Inl (errors_New ErrWalletNotLoaded)"
    by (simp add: getLoaded_cases)
  from g show "SpvSync env peerAddresses lw = (Some (errors_New ErrWalletNotLoaded), lw)"
    by (rule SpvSync_guard_fails)
  from g show "RpcSync env a u p cert lw = (Some (errors_New ErrWalletNotLoaded), lw)"
    by (rule RpcSync_guard_fails)
next
  assume "loaded (walletLoader lw) = Some r \<and> networkBackend (wallets lw r) = Some b"
  then have g: "getLoadedWalletForSyncing lw = Inl (errors_New ErrSyncAlreadyInProgress)"
    by (simp add: getLoaded_cases)
  from g show "SpvSync env peerAddresses lw = (Some (errors_New ErrSyncAlreadyInProgress), lw)"
    by (rule SpvSync_guard_fails)
  from g show "RpcSync env a u p cert lw = (Some (errors_New ErrSyncAlreadyInProgress), lw)"
    by (rule RpcSync_guard_fails)
next
  let ?lw' = "snd (SpvSync env peerAddresses lw)"
  assume "fst (SpvSync env peerAddresses lw) = None"
  then obtain r' peers where g: "getLoadedWalletForSyncing lw = Inr r'"
    and at: "attached r' ?lw' = (Some (SPVSyncer r' peers), Some (SPVSyncer r' peers))"
    and oth: "\<forall>x. x \<noteq> r' \<longrightarrow> wallets ?lw' x = wallets lw x"
    and ld: "loaded (walletLoader ?lw') = loaded (walletLoader lw)"
    using SpvSync_success by blast
  from g have l: "loaded (walletLoader lw) = Some r'" "networkBackend (wallets lw r') = None"
    by (auto simp: getLoaded_cases split: option.splits)
  have l': "loaded (walletLoader ?lw') = Some r'"
    using l ld by simp
  have "getLoadedWalletForSyncing ?lw' = Inl (errors_New ErrSyncAlreadyInProgress)"
    using l' at by (simp add: getLoaded_cases attached_def)
  then have "fst (SpvSync env peerAddresses2 ?lw') = Some (errors_New ErrSyncAlreadyInProgress)"
    by (simp add: SpvSync_guard_fails)
  with l at oth show "\<exists>r' b'. loaded (walletLoader lw) = Some r' \<and> networkBackend (wallets lw r') = None
          \<and> attached r' ?lw' = (Some b', Some b')
          \<and> (\<forall>x. x \<noteq> r' \<longrightarrow> wallets ?lw' x = wallets lw x)
          \<and> fst (SpvSync env peerAddresses2 ?lw') = Some (errors_New ErrSyncAlreadyInProgress)"
    by blast
next
  let ?lw' = "snd (RpcSync env a u p cert lw)"
  assume "fst (RpcSync env a u p cert lw) = None"
  then obtain r' c where g: "getLoadedWalletForSyncing lw = Inr r'"
    and at: "attached r' ?lw' = (Some (BackendFromRPCClient c), Some (BackendFromRPCClient c))"
    and oth: "\<forall>x. x \<noteq> r' \<longrightarrow> wallets ?lw' x = wallets lw x"
    and ld: "loaded (walletLoader ?lw') = loaded (walletLoader lw)"
    using RpcSync_success by blast
  from g have l: "loaded (walletLoader lw) = Some r'" "networkBackend (wallets lw r') = None"
    by (auto simp: getLoaded_cases split: option.splits)
  have l': "loaded (walletLoader ?lw') = Some r'"
    using l ld by simp
  have "getLoadedWalletForSyncing ?lw' = Inl (errors_New ErrSyncAlreadyInProgress)"
    using l' at by (simp add: getLoaded_cases attached_def)
  then have "fst (RpcSync env a2 u2 p2 cert2 ?lw') = Some (errors_New ErrSyncAlreadyInProgress)"
    by (simp add: RpcSync_guard_fails)
  with l at oth show "\<exists>r' b'. loaded (walletLoader lw) = Some r' \<and> networkBackend (wallets lw r') = None
          \<and> attached r' ?lw' = (Some b', Some b')
          \<and> (\<forall>x. x \<noteq> r' \<longrightarrow> wallets ?lw' x = wallets lw x)
          \<and> fst (RpcSync env a2 u2 p2 cert2 ?lw') = Some (errors_New ErrSyncAlreadyInProgress)"
    by blast
qed


lemma example_SpvSync:
  "SpvSync example_env [] example_lw =
     (None, example_lw\<lparr>wallets := (wallets example_lw)(0 := example_wallet\<lparr>networkBackend := Some (SPVSyncer 0 [])\<rparr>),
                      walletLoader := \<lparr>loaded = Some 0, loaderBackend = Some (SPVSyncer 0 [])\<rparr>,
                      nextCtx := 1, cancelSync := Some 0,
                      launched := [SpvRunTask (SPVSyncer 0 []) 0]\<rparr>)"
  by (simp add: SpvSync_def getLoaded_cases example_lw_def example_wallet_def attachBackend_def
        wallet_SetNetworkBackend_def loader_SetNetworkBackend_def contextWithShutdownCancel_def
        Let_def)

theorem sync_start_guard_witness:
  "loaded (walletLoader example_unloaded) = None
   \<and> fst (SpvSync example_env [] example_unloaded) = Some (errors_New ErrWalletNotLoaded)
   \<and> fst (RpcSync example_env ''localhost'' ''user'' ''secret'' [] example_unloaded)
        = Some (errors_New ErrWalletNotLoaded)
   \<and> fst (SpvSync example_env [] example_lw) = None
   \<and> fst (RpcSync example_env ''localhost'' ''user'' ''secret'' [] example_lw) = None
   \<and> attached 0 (snd (SpvSync example_env [] example_lw))
        = (Some (SPVSyncer 0 []), Some (SPVSyncer 0 []))
   \<and> fst (SpvSync example_env [] (snd (SpvSync example_env [] example_lw)))
        = Some (errors_New ErrSyncAlreadyInProgress)
   \<and> fst (RpcSync example_env ''localhost'' ''user'' ''secret'' [] (snd (SpvSync example_env [] example_lw)))
        = Some (errors_New ErrSyncAlreadyInProgress)"
proof -
  let ?lw' = "snd (SpvSync example_env [] example_lw)"
  have u: "loaded (walletLoader example_unloaded) = None"
    by (simp add: example_unloaded_def example_lw_def)
  have s: "fst (SpvSync example_env [] example_lw) = None"
    by (simp add: example_SpvSync)
  have r: "fst (RpcSync example_env ''localhost'' ''user'' ''secret'' [] example_lw) = None"
    by (simp add: RpcSync_def connectToRpcClient_def contextWithShutdownCancel_def getLoaded_cases
        example_lw_def example_env_def example_wallet_def Let_def)
  have l: "loaded (walletLoader example_lw) = Some 0"
    by (simp add: example_lw_def)
  have b: "loaded (walletLoader ?lw') = Some 0 \<and> networkBackend (wallets ?lw' 0) = Some (SPVSyncer 0 [])"
    by (simp add: example_SpvSync)
  note t = sync_start_guard [where lw = example_unloaded and env = example_env
      and peerAddresses = "[]" and a = "''localhost''" and u = "''user''" and p = "''secret''"
      and cert = "[]"]
  note t' = sync_start_guard [where lw = example_lw and env = example_env
      and peerAddresses = "[]" and a = "''localhost''" and u = "''user''" and p = "''secret''"
      and cert = "[]" and ?peerAddresses2.0 = "[]"]
  note t'' = sync_start_guard [where lw = ?lw' and r = 0 and b = "SPVSyncer 0 []"
      and env = example_env
      and peerAddresses = "[]" and a = "''localhost''" and u = "''user''" and p = "''secret''"
      and cert = "[]"]
  have at: "attached 0 ?lw' = (Some (SPVSyncer 0 []), Some (SPVSyncer 0 []))"
    by (simp add: example_SpvSync attached_def)
  show ?thesis
    using t u t' s r l t'' b at by auto
qed


section \<open>Connecting to the RPC server\<close>

text \<open>
  A call of \<open>RpcSync\<close> that gets as far as \<open>Start\<close> and sees it fail returns one of
  three codes, chosen by the tests of \<open>connectToRpcClient\<close> on the error of \<open>Start\<close>;
  \<open>ErrInvalidAuth\<close> is not among them. Nothing is attached, launched or notified.
\<close>

lemma RpcSync_failed_start:
  assumes "getLoadedWalletForSyncing lw = Inr r"
    and "rpcClient lw = None"
    and "NormalizeAddress env networkAddress (JSONRPCClientPort (activeNet lw)) = Inr a"
    and "NewRPCClient env a username password cert (length cert = 0) = Inr c"
    and "Start env c (nextCtx lw) = Some e"
  shows "fst (RpcSync env networkAddress username password cert lw)
           = Some (errors_New
               (if e = rpcclient_ErrInvalidAuth then ErrInvalid
                else if errors_Match env (errors_E_err context_Canceled) e then ErrContextCanceled
                else ErrUnavailable))
       \<and> fst (RpcSync env networkAddress username password cert lw)
           \<noteq> Some (errors_New ErrInvalidAuth)
       \<and> wallets (snd (RpcSync env networkAddress username password cert lw)) = wallets lw
       \<and> walletLoader (snd (RpcSync env networkAddress username password cert lw)) = walletLoader lw
       \<and> launched (snd (RpcSync env networkAddress username password cert lw)) = launched lw
       \<and> trace (snd (RpcSync env networkAddress username password cert lw)) = trace lw"
  using assms
  by (simp add: RpcSync_def connectToRpcClient_def contextWithShutdownCancel_def)

text \<open>
  C3. An \<open>RpcSync\<close> whose server rejects the credentials should return the
  \<open>ErrInvalidAuth\<close> error from the connect step, with no backend attached and no
  background task launched. On the loaded example wallet with a wrong password the call
  does fail synchronously and attaches and launches nothing, but the error is not
  \<open>ErrInvalidAuth\<close>: when \<open>Start\<close> reports the rejection wrapped, the comparison with
  the sentinel fails and the call returns \<open>ErrUnavailable\<close>; when \<open>Start\<close> hands the
  sentinel back as it is, the branch made for it returns \<open>ErrInvalid\<close>.
\<close>

theorem RpcSync_rejected_credentials_not_InvalidAuth:
  "Start example_env (RPCClient ''localhost:9109'' ''user'' ''wrong'' [] True) 0
     = Some (errors_E_err rpcclient_ErrInvalidAuth)
   \<and> fst (RpcSync example_env ''localhost'' ''user'' ''wrong'' [] example_lw)
       = Some (errors_New ErrUnavailable)
   \<and> Start example_env_bare (RPCClient ''localhost:9109'' ''user'' ''wrong'' [] True) 0
       = Some rpcclient_ErrInvalidAuth
   \<and> fst (RpcSync example_env_bare ''localhost'' ''user'' ''wrong'' [] example_lw)
       = Some (errors_New ErrInvalid)
   \<and> fst (RpcSync example_env ''localhost'' ''user'' ''wrong'' [] example_lw)
       \<noteq> Some (errors_New ErrInvalidAuth)
   \<and> fst (RpcSync example_env_bare ''localhost'' ''user'' ''wrong'' [] example_lw)
       \<noteq> Some (errors_New ErrInvalidAuth)
   \<and> attached 0 (snd (RpcSync example_env ''localhost'' ''user'' ''wrong'' [] example_lw))
       = (None, None)
   \<and> launched (snd (RpcSync example_env ''localhost'' ''user'' ''wrong'' [] example_lw)) = []"
proof -
  let ?c = "RPCClient ''localhost:9109'' ''user'' ''wrong'' [] True"
  have g: "getLoadedWalletForSyncing example_lw = Inr 0"
    by (simp add: getLoaded_cases example_lw_def example_wallet_def)
  have n: "rpcClient example_lw = None" "nextCtx example_lw = 0" "launched example_lw = []"
    "JSONRPCClientPort (activeNet example_lw) = ''9109''"
    by (simp_all add: example_lw_def)
  have a0: "attached 0 example_lw = (None, None)"
    by (simp add: attached_def example_lw_def example_wallet_def)
  have w: "NormalizeAddress example_env ''localhost'' ''9109'' = Inr ''localhost:9109''"
    "NewRPCClient example_env ''localhost:9109'' ''user'' ''wrong'' [] (length ([]::byte list) = 0)
       = Inr ?c"
    "Start example_env ?c 0 = Some (errors_E_err rpcclient_ErrInvalidAuth)"
    "\<not> errors_Match example_env (errors_E_err context_Canceled)
         (errors_E_err rpcclient_ErrInvalidAuth)"
    by (simp_all add: example_env_def)
  have b: "NormalizeAddress example_env_bare ''localhost'' ''9109'' = Inr ''localhost:9109''"
    "NewRPCClient example_env_bare ''localhost:9109'' ''user'' ''wrong'' [] (length ([]::byte list) = 0)
       = Inr ?c"
    "Start example_env_bare ?c 0 = Some rpcclient_ErrInvalidAuth"
    by (simp_all add: example_env_bare_def example_env_def)
  have fw: "fst (RpcSync example_env ''localhost'' ''user'' ''wrong'' [] example_lw)
              = Some (errors_New ErrUnavailable)"
    and kw: "wallets (snd (RpcSync example_env ''localhost'' ''user'' ''wrong'' [] example_lw))
              = wallets example_lw"
      "walletLoader (snd (RpcSync example_env ''localhost'' ''user'' ''wrong'' [] example_lw))
              = walletLoader example_lw"
      "launched (snd (RpcSync example_env ''localhost'' ''user'' ''wrong'' [] example_lw)) = []"
    using RpcSync_failed_start [of example_lw 0 example_env "''localhost''" "''localhost:9109''"
        "''user''" "''wrong''" "[]" ?c "errors_E_err rpcclient_ErrInvalidAuth"] g n w
    by simp_all
  have fb: "fst (RpcSync example_env_bare ''localhost'' ''user'' ''wrong'' [] example_lw)
              = Some (errors_New ErrInvalid)"
    using RpcSync_failed_start [of example_lw 0 example_env_bare "''localhost''" "''localhost:9109''"
        "''user''" "''wrong''" "[]" ?c rpcclient_ErrInvalidAuth] g n b
    by simp
  have at: "attached 0 (snd (RpcSync example_env ''localhost'' ''user'' ''wrong'' [] example_lw))
              = (None, None)"
    using a0 kw by (simp add: attached_def)
  show ?thesis
    using w(3) b(3) fw fb at kw(3) by simp
qed

section \<open>Peer addresses\<close>

lemma peerResult_trace [simp]: "peerResult env (lw\<lparr>trace := t\<rparr>) a = peerResult env lw a"
  by (simp add: peerResult_def)

lemma to_all_trace [simp]: "to_all (lw\<lparr>trace := t\<rparr>) cb = to_all lw cb"
  by (simp add: to_all_def)

lemma validPeers_trace [simp]: "validPeers env (lw\<lparr>trace := t\<rparr>) as = validPeers env lw as"
  by (simp add: validPeers_def)

lemma peerErrors_trace [simp]: "peerErrors env (lw\<lparr>trace := t\<rparr>) as = peerErrors env lw as"
  by (simp add: peerErrors_def cong: sum.case_cong)

lemma normalizePeers_eq:
  "normalizePeers env addresses acc lw
     = (acc @ validPeers env lw addresses, lw\<lparr>trace := trace lw @ peerErrors env lw addresses\<rparr>)"
proof (induction addresses arbitrary: acc lw)
  case Nil
  show ?case by (simp add: validPeers_def peerErrors_def)
next
  case (Cons a as)
  show ?case
  proof (cases "NormalizeAddress env a (DefaultPort (activeNet lw))")
    case (Inl e)
    have v: "validPeers env lw (a # as) = validPeers env lw as"
      using Inl by (simp add: validPeers_def peerResult_def)
    have pe: "peerErrors env lw (a # as)
        = to_all lw (OnSyncError 3 (errors_E_fmt ''SPV peer address invalid: %v'' e)) @ peerErrors env lw as"
      using Inl by (simp add: peerErrors_def peerResult_def)
    show ?thesis
      using Inl by (simp add: Cons.IH v pe notifySyncError_def broadcast_def to_all_def)
  next
    case (Inr x)
    have v: "validPeers env lw (a # as) = x # validPeers env lw as"
      using Inr by (simp add: validPeers_def peerResult_def)
    have pe: "peerErrors env lw (a # as) = peerErrors env lw as"
      using Inr by (simp add: peerErrors_def peerResult_def)
    show ?thesis
      using Inr by (simp add: Cons.IH v pe)
  qed
qed

lemma validPeers_empty_iff:
  "(validPeers env lw addresses = []) = (\<forall>a \<in> set addresses. isl (peerResult env lw a))"
  by (auto simp: validPeers_def filter_empty_conv)

text \<open>
  C5. For a loaded wallet without a backend and a non-empty peer address string,
  \<open>SpvSync\<close> returns \<open>ErrInvalidPeers\<close> exactly when every entry of the
  semicolon-separated list fails normalisation, and then attaches no backend and launches
  nothing. When at least one entry normalises, \<open>SpvSync\<close> succeeds: the backend
  attached carries the normalised entries in order as persistent peers, and the listener
  calls made are exactly one \<open>OnSyncError(3, ...)\<close> round for each malformed entry.
\<close>

theorem SpvSync_peer_addresses:
  assumes "getLoadedWalletForSyncing lw = Inr r" and "peerAddresses \<noteq> []"
  shows "((fst (SpvSync env peerAddresses lw) = Some (errors_New ErrInvalidPeers))
            = (\<forall>a \<in> set (strings_Split peerAddresses CHR '';''). isl (peerResult env lw a)))
       \<and> ((\<forall>a \<in> set (strings_Split peerAddresses CHR '';''). isl (peerResult env lw a)) \<longrightarrow>
             fst (attached r (snd (SpvSync env peerAddresses lw))) = None
           \<and> attached r (snd (SpvSync env peerAddresses lw)) = attached r lw
           \<and> launched (snd (SpvSync env peerAddresses lw)) = launched lw)
       \<and> ((\<exists>a \<in> set (strings_Split peerAddresses CHR '';''). \<not> isl (peerResult env lw a)) \<longrightarrow>
             fst (SpvSync env peerAddresses lw) = None
           \<and> attached r (snd (SpvSync env peerAddresses lw))
               = (Some (SPVSyncer r (validPeers env lw (strings_Split peerAddresses CHR '';''))),
                  Some (SPVSyncer r (validPeers env lw (strings_Split peerAddresses CHR '';''))))
           \<and> emitted lw (snd (SpvSync env peerAddresses lw))
               = peerErrors env lw (strings_Split peerAddresses CHR '';''))"
proof -
  let ?as = "strings_Split peerAddresses CHR '';''"
  let ?v = "validPeers env lw ?as"
  let ?lw1 = "lw\<lparr>trace := trace lw @ peerErrors env lw ?as\<rparr>"
  have nb: "networkBackend (wallets lw r) = None"
    using assms(1) by (auto simp: getLoaded_cases split: option.splits)
  show ?thesis
  proof (cases "?v = []")
    case True
    have s: "SpvSync env peerAddresses lw = (Some (errors_New ErrInvalidPeers), ?lw1)"
      using assms True by (simp add: SpvSync_def normalizePeers_eq)
    have all: "\<forall>a \<in> set ?as. isl (peerResult env lw a)"
      using True by (simp add: validPeers_empty_iff)
    show ?thesis
      using all nb by (auto simp: s attached_def)
  next
    case False
    have s: "SpvSync env peerAddresses lw =
        (None, (attachBackend r (SPVSyncer r ?v) ?lw1)
                 \<lparr>nextCtx := Suc (nextCtx lw), cancelSync := Some (nextCtx lw),
                  launched := launched lw @ [SpvRunTask (SPVSyncer r ?v) (nextCtx lw)]\<rparr>)"
      using assms False
      by (simp add: SpvSync_def normalizePeers_eq SetPersistantPeers_def attachBackend_def
            contextWithShutdownCancel_def Let_def)
    have ex: "\<not> (\<forall>a \<in> set ?as. isl (peerResult env lw a))"
      using False by (simp add: validPeers_empty_iff)
    show ?thesis
      using ex by (auto simp: s attached_def attachBackend_def emitted_def
            wallet_SetNetworkBackend_def loader_SetNetworkBackend_def)
  qed
qed

lemma example_guard: "getLoadedWalletForSyncing example_lw = Inr 0"
  by (simp add: getLoaded_cases example_lw_def example_wallet_def)

lemma example_peerResult:
  "peerResult example_env example_lw a =
     (if a = [] \<or> CHR '' '' \<in> set a then Inl (foreign ''bad address'')
      else if CHR '':'' \<in> set a then Inr a
      else Inr (a @ '':9108''))"
  by (simp add: peerResult_def example_env_def example_lw_def)

theorem SpvSync_peer_addresses_witness:
  "getLoadedWalletForSyncing example_lw = Inr 0
   \<and> fst (SpvSync example_env ''a b;;c d'' example_lw) = Some (errors_New ErrInvalidPeers)
   \<and> attached 0 (snd (SpvSync example_env ''a b;;c d'' example_lw)) = (None, None)
   \<and> fst (SpvSync example_env ''a b;h;c d;h:9'' example_lw) = None
   \<and> attached 0 (snd (SpvSync example_env ''a b;h;c d;h:9'' example_lw))
        = (Some (SPVSyncer 0 [''h:9108'', ''h:9'']), Some (SPVSyncer 0 [''h:9108'', ''h:9'']))
   \<and> emitted example_lw (snd (SpvSync example_env ''a b;h;c d;h:9'' example_lw))
        = [(0, OnSyncError 3 (errors_E_fmt ''SPV peer address invalid: %v'' (foreign ''bad address''))),
           (1, OnSyncError 3 (errors_E_fmt ''SPV peer address invalid: %v'' (foreign ''bad address''))),
           (0, OnSyncError 3 (errors_E_fmt ''SPV peer address invalid: %v'' (foreign ''bad address''))),
           (1, OnSyncError 3 (errors_E_fmt ''SPV peer address invalid: %v'' (foreign ''bad address'')))]"
proof -
  have s1: "strings_Split ''a b;;c d'' CHR '';'' = [''a b'', [], ''c d'']"
    by simp
  have s2: "strings_Split ''a b;h;c d;h:9'' CHR '';'' = [''a b'', ''h'', ''c d'', ''h:9'']"
    by simp
  have a0: "attached 0 example_lw = (None, None)"
    by (simp add: attached_def example_lw_def example_wallet_def)
  have l: "syncProgressListeners example_lw = [0, 1]"
    by (simp add: example_lw_def)
  have bad: "\<forall>a \<in> set (strings_Split ''a b;;c d'' CHR '';''). isl (peerResult example_env example_lw a)"
    unfolding s1 by (simp add: example_peerResult)
  have good: "\<exists>a \<in> set (strings_Split ''a b;h;c d;h:9'' CHR '';''). \<not> isl (peerResult example_env example_lw a)"
    unfolding s2 by (simp add: example_peerResult)
  have v: "validPeers example_env example_lw [''a b'', ''h'', ''c d'', ''h:9''] = [''h:9108'', ''h:9'']"
    by (simp add: validPeers_def example_peerResult)
  have e: "peerErrors example_env example_lw [''a b'', ''h'', ''c d'', ''h:9'']
        = [(0, OnSyncError 3 (errors_E_fmt ''SPV peer address invalid: %v'' (foreign ''bad address''))),
           (1, OnSyncError 3 (errors_E_fmt ''SPV peer address invalid: %v'' (foreign ''bad address''))),
           (0, OnSyncError 3 (errors_E_fmt ''SPV peer address invalid: %v'' (foreign ''bad address''))),
           (1, OnSyncError 3 (errors_E_fmt ''SPV peer address invalid: %v'' (foreign ''bad address'')))]"
    by (simp add: peerErrors_def example_peerResult to_all_def l)
  have n1: "''a b;;c d'' \<noteq> []" and n2: "''a b;h;c d;h:9'' \<noteq> []"
    by simp_all
  note t1 = SpvSync_peer_addresses [OF example_guard n1, of example_env]
  note t2 = SpvSync_peer_addresses [OF example_guard n2, of example_env]
  from t1 bad have b1: "fst (SpvSync example_env ''a b;;c d'' example_lw) = Some (errors_New ErrInvalidPeers)"
    and b2: "attached 0 (snd (SpvSync example_env ''a b;;c d'' example_lw)) = (None, None)"
    by (simp_all add: a0)
  from t2 good have g1: "fst (SpvSync example_env ''a b;h;c d;h:9'' example_lw) = None"
    and g2: "attached 0 (snd (SpvSync example_env ''a b;h;c d;h:9'' example_lw))
        = (Some (SPVSyncer 0 (validPeers example_env example_lw (strings_Split ''a b;h;c d;h:9'' CHR '';''))),
           Some (SPVSyncer 0 (validPeers example_env example_lw (strings_Split ''a b;h;c d;h:9'' CHR '';''))))"
    and g3: "emitted example_lw (snd (SpvSync example_env ''a b;h;c d;h:9'' example_lw))
        = peerErrors example_env example_lw (strings_Split ''a b;h;c d;h:9'' CHR '';'')"
    by blast+
  show ?thesis
    using example_guard b1 b2 g1 g2 g3 unfolding s2 v e by simp
qed


section \<open>Rescan\<close>

lemma rescanLoop_fields [simp]:
  "wallets (snd (snd (rescanLoop items t lw))) = wallets lw"
  "wallet (snd (snd (rescanLoop items t lw))) = wallet lw"
  "walletLoader (snd (snd (rescanLoop items t lw))) = walletLoader lw"
  "syncProgressListeners (snd (snd (rescanLoop items t lw))) = syncProgressListeners lw"
  "cancelSync (snd (snd (rescanLoop items t lw))) = cancelSync lw"
  "launched (snd (snd (rescanLoop items t lw))) = launched lw"
  by (induction items t lw rule: rescanLoop.induct; simp)+

lemma RescanBlocks_goroutine_fields:
  "rescanning (RescanBlocks_goroutine items ctxDone lw) = False"
  "wallets (RescanBlocks_goroutine items ctxDone lw) = wallets lw"
  "wallet (RescanBlocks_goroutine items ctxDone lw) = wallet lw"
  "launched (RescanBlocks_goroutine items ctxDone lw) = launched lw"
  by (simp_all add: RescanBlocks_goroutine_def contextWithShutdownCancel_def Let_def
        case_prod_beta)

lemma RescanBlocks_cases:
  "RescanBlocks lw =
     (case wallet lw of
        None \<Rightarrow> (Some panic_nil_dereference, lw)
      | Some r \<Rightarrow>
          (case networkBackend (wallets lw r) of
             None \<Rightarrow> (Some (errors_E_code ErrNotConnected), lw)
           | Some b \<Rightarrow>
               if rescanning lw then (Some (errors_E_code ErrInvalid), lw)
               else (None, lw\<lparr>launched := launched lw @ [RescanTask (Some b)]\<rparr>)))"
  by (simp add: RescanBlocks_def wallet_NetworkBackend_def split: option.splits)

text \<open>
  C6. With the wallet opened: \<open>RescanBlocks\<close> returns \<open>ErrNotConnected\<close> when no backend
  is attached, and \<open>ErrInvalid\<close> when a backend is attached and the rescanning flag is
  set. Whatever the items received and whether or not the context is done, the flag is
  false when the goroutine has exited, and \<open>RescanBlocks\<close> then starts a new rescan.
\<close>

theorem RescanBlocks_guards_and_flag:
  "(wallet lw = Some r \<and> networkBackend (wallets lw r) = None \<longrightarrow>
       RescanBlocks lw = (Some (errors_E_code ErrNotConnected), lw))
   \<and> (wallet lw = Some r \<and> networkBackend (wallets lw r) = Some b \<and> rescanning lw \<longrightarrow>
       RescanBlocks lw = (Some (errors_E_code ErrInvalid), lw))
   \<and> rescanning (RescanBlocks_goroutine items ctxDone lw) = False
   \<and> (wallet lw = Some r \<and> networkBackend (wallets lw r) = Some b \<longrightarrow>
       RescanBlocks (RescanBlocks_goroutine items ctxDone lw)
         = (None, (RescanBlocks_goroutine items ctxDone lw)
                    \<lparr>launched := launched lw @ [RescanTask (Some b)]\<rparr>))"
  by (simp add: RescanBlocks_cases RescanBlocks_goroutine_fields)

lemma rescanLoop_closed:
  "\<forall>p \<in> set items. Err p = None \<Longrightarrow>
   rescanLoop items t lw
     = (True, t + sum_list (map ScannedThrough items),
        lw\<lparr>trace := trace lw @ rescanProgressCalls lw items\<rparr>)"
proof (induction items arbitrary: t lw)
  case Nil
  show ?case by (simp add: rescanProgressCalls_def)
next
  case (Cons p ps)
  have c: "rescanProgressCalls (broadcast (OnRescan (ScannedThrough p) PROGRESS) lw) ps
             = rescanProgressCalls lw ps"
    by (simp add: rescanProgressCalls_def to_all_def)
  have d: "rescanProgressCalls lw (p # ps)
             = to_all lw (OnRescan (ScannedThrough p) PROGRESS) @ rescanProgressCalls lw ps"
    by (simp add: rescanProgressCalls_def)
  from Cons.prems have "Err p = None" "\<forall>p \<in> set ps. Err p = None" by simp_all
  then show ?case
    by (simp add: Cons.IH c d) (simp add: broadcast_def to_all_def add.assoc)
qed

lemma rescanProgressCalls_phase:
  "(l, OnRescan h ph) \<in> set (rescanProgressCalls lw items) \<Longrightarrow> ph = PROGRESS"
  by (auto simp: rescanProgressCalls_def to_all_def)

text \<open>
  C7. When the loop of the rescan goroutine ends because the progress channel is closed
  (no item carried an error), the calls made are the progress rounds followed by one final
  round \<open>OnRescan(totalHeight, ph)\<close> on every listener, where \<open>totalHeight\<close> is the
  (wrapping) sum of the \<open>ScannedThrough\<close> values received, and \<open>ph\<close> is \<open>PROGRESS\<close>
  when the context is done and \<open>FINISH\<close> otherwise; with the context done, no \<open>FINISH\<close>
  call is made at all.
\<close>

theorem RescanBlocks_final_notification:
  assumes "\<forall>p \<in> set items. Err p = None"
  shows "emitted lw (RescanBlocks_goroutine items ctxDone lw)
           = rescanProgressCalls lw items
             @ to_all lw (OnRescan (sum_list (map ScannedThrough items))
                            (if ctxDone then PROGRESS else FINISH))
       \<and> (ctxDone \<longrightarrow>
            (\<forall>l h. (l, OnRescan h FINISH) \<notin> set (emitted lw (RescanBlocks_goroutine items ctxDone lw))))"
proof -
  have e: "emitted lw (RescanBlocks_goroutine items ctxDone lw)
           = rescanProgressCalls lw items
             @ to_all lw (OnRescan (sum_list (map ScannedThrough items))
                            (if ctxDone then PROGRESS else FINISH))"
    using assms
    by (simp add: RescanBlocks_goroutine_def contextWithShutdownCancel_def rescanLoop_closed
          emitted_def to_all_def rescanProgressCalls_def)
  have "(l, OnRescan h FINISH) \<notin> set (emitted lw (RescanBlocks_goroutine items ctxDone lw))"
    if "ctxDone" for l h
  proof
    assume "(l, OnRescan h FINISH) \<in> set (emitted lw (RescanBlocks_goroutine items ctxDone lw))"
    then have "(l, OnRescan h FINISH) \<in> set (rescanProgressCalls lw items)
        \<or> (l, OnRescan h FINISH)
            \<in> set (to_all lw (OnRescan (sum_list (map ScannedThrough items)) PROGRESS))"
      unfolding e using that by simp
    then show False
      using rescanProgressCalls_phase [of l h FINISH lw items] by (auto simp: to_all_def)
  qed
  with e show ?thesis by blast
qed

theorem RescanBlocks_final_notification_witness:
  "Err \<lparr>Err = None, ScannedThrough = 999\<rparr> = None
   \<and> emitted example_lw (RescanBlocks_goroutine [\<lparr>Err = None, ScannedThrough = 999\<rparr>] True example_lw)
       = [(0, OnRescan 999 PROGRESS), (1, OnRescan 999 PROGRESS)]
         @ [(0, OnRescan 999 PROGRESS), (1, OnRescan 999 PROGRESS)]
   \<and> emitted example_lw (RescanBlocks_goroutine [\<lparr>Err = None, ScannedThrough = 999\<rparr>] False example_lw)
       = [(0, OnRescan 999 PROGRESS), (1, OnRescan 999 PROGRESS)]
         @ [(0, OnRescan 999 FINISH), (1, OnRescan 999 FINISH)]"
proof -
  have h: "\<forall>p \<in> set [\<lparr>Err = None, ScannedThrough = 999\<rparr>]. Err p = None"
    by simp
  have l: "syncProgressListeners example_lw = [0, 1]"
    by (simp add: example_lw_def)
  show ?thesis
    using RescanBlocks_final_notification [OF h, of example_lw True]
      RescanBlocks_final_notification [OF h, of example_lw False]
    by (simp add: rescanProgressCalls_def to_all_def l)
qed


lemma example_attached:
  "wallet (snd (SpvSync example_env [] example_lw)) = Some 0
   \<and> networkBackend (wallets (snd (SpvSync example_env [] example_lw)) 0) = Some (SPVSyncer 0 [])
   \<and> rescanning (snd (SpvSync example_env [] example_lw)) = False"
  by (simp add: example_SpvSync) (simp add: example_lw_def)

theorem RescanBlocks_guards_and_flag_witness:
  "wallet example_lw = Some 0 \<and> networkBackend (wallets example_lw 0) = None
   \<and> fst (RescanBlocks example_lw) = Some (errors_E_code ErrNotConnected)
   \<and> fst (RescanBlocks ((snd (SpvSync example_env [] example_lw))\<lparr>rescanning := True\<rparr>))
        = Some (errors_E_code ErrInvalid)
   \<and> rescanning (RescanBlocks_goroutine [\<lparr>Err = Some (foreign ''rescan failed''), ScannedThrough = 0\<rparr>]
        False ((snd (SpvSync example_env [] example_lw))\<lparr>rescanning := True\<rparr>)) = False
   \<and> fst (RescanBlocks (RescanBlocks_goroutine
        [\<lparr>Err = Some (foreign ''rescan failed''), ScannedThrough = 0\<rparr>] False
        ((snd (SpvSync example_env [] example_lw))\<lparr>rescanning := True\<rparr>))) = None"
proof -
  let ?lw = "(snd (SpvSync example_env [] example_lw))\<lparr>rescanning := True\<rparr>"
  let ?items = "[\<lparr>Err = Some (foreign ''rescan failed''), ScannedThrough = 0\<rparr>]"
  have a: "wallet example_lw = Some 0 \<and> networkBackend (wallets example_lw 0) = None"
    by (simp add: example_lw_def example_wallet_def)
  have b: "wallet ?lw = Some 0 \<and> networkBackend (wallets ?lw 0) = Some (SPVSyncer 0 [])"
    using example_attached by simp
  have c: "rescanning ?lw" by simp
  show ?thesis
    using a b c
      RescanBlocks_guards_and_flag [where lw = example_lw and r = 0]
      RescanBlocks_guards_and_flag [where lw = ?lw and r = 0 and b = "SPVSyncer 0 []"
        and items = ?items and ctxDone = False]
    by simp
qed


section \<open>Cancelling a sync\<close>

text \<open>Listeners are kept in the order of their registration.\<close>

lemma AddSyncProgressListener_order:
  "syncProgressListeners (foldl (\<lambda>s l. AddSyncProgressListener l s) lw ls)
     = syncProgressListeners lw @ ls"
  by (induction ls arbitrary: lw) (simp_all add: AddSyncProgressListener_def)

text \<open>
  C8. When the stored cancellation handle is nil, \<open>CancelSync\<close> cancels nothing and
  calls \<open>OnSynced(false)\<close> on every registered listener, in registration order; nothing
  else changes.
\<close>

theorem CancelSync_without_handle:
  assumes "cancelSync lw = None"
  shows "canceled (CancelSync lw) = canceled lw
       \<and> emitted lw (CancelSync lw) = map (\<lambda>l. (l, OnSynced False)) (syncProgressListeners lw)
       \<and> CancelSync lw = lw\<lparr>trace := trace lw @ to_all lw (OnSynced False)\<rparr>"
  using assms by (simp add: CancelSync_def emitted_def broadcast_def to_all_def)

theorem CancelSync_without_handle_witness:
  "cancelSync example_lw = None
   \<and> canceled (CancelSync example_lw) = []
   \<and> emitted example_lw (CancelSync example_lw) = [(0, OnSynced False), (1, OnSynced False)]"
proof -
  have h: "cancelSync example_lw = None"
    by (simp add: example_lw_def)
  have l: "syncProgressListeners example_lw = [0, 1]" "canceled example_lw = []"
    by (simp_all add: example_lw_def)
  show ?thesis
    using CancelSync_without_handle [OF h] h l by (simp add: emitted_def to_all_def)
qed

text \<open>With a stored handle, that handle is invoked, once.\<close>

lemma CancelSync_with_handle:
  "cancelSync lw = Some c \<Longrightarrow> canceled (CancelSync lw) = canceled lw @ [c]"
  by (simp add: CancelSync_def)

section \<open>The cancellation handle after a sync has ended\<close>

lemma notifySyncError_cancelSync [simp]:
  "cancelSync (notifySyncError n e lw) = cancelSync lw"
  by (simp add: notifySyncError_def)

text \<open>
  C9, as amended. When the run loop of a sync has returned, whatever its outcome, the
  stored cancellation handle is what it was before: after a successful \<open>SpvSync\<close> or
  \<open>RpcSync\<close> it still is the handle stored at the start. \<open>CancelSync\<close> does not
  clear it either.
\<close>

theorem cancel_handle_kept_after_terminal_outcome:
  "cancelSync (SpvSync_goroutine err lw) = cancelSync lw
   \<and> cancelSync (RpcSync_goroutine err lw) = cancelSync lw
   \<and> cancelSync (CancelSync lw) = cancelSync lw
   \<and> (fst (SpvSync env peerAddresses lw) = None \<longrightarrow>
        cancelSync (SpvSync_goroutine err (snd (SpvSync env peerAddresses lw))) = Some (nextCtx lw))
   \<and> (fst (RpcSync env a u p cert lw) = None \<longrightarrow>
        cancelSync (RpcSync_goroutine err (snd (RpcSync env a u p cert lw))) = Some (nextCtx lw))"
proof -
  have s: "cancelSync (SpvSync_goroutine err lw') = cancelSync lw'" for lw'
    by (simp add: SpvSync_goroutine_def split: option.splits)
  have r: "cancelSync (RpcSync_goroutine err lw') = cancelSync lw'" for lw'
    by (simp add: RpcSync_goroutine_def split: option.splits)
  have c: "cancelSync (CancelSync lw) = cancelSync lw"
    by (simp add: CancelSync_def split: option.splits)
  show ?thesis
    using SpvSync_success [of env peerAddresses lw] RpcSync_success [of env a u p cert lw]
    by (auto simp: s r c)
qed

theorem cancel_handle_kept_after_terminal_outcome_witness:
  "fst (SpvSync example_env [] example_lw) = None
   \<and> cancelSync (SpvSync_goroutine (Some context_Canceled) (snd (SpvSync example_env [] example_lw)))
       = Some 0
   \<and> fst (RpcSync example_env ''localhost'' ''user'' ''secret'' [] example_lw) = None
   \<and> cancelSync (RpcSync_goroutine None
         (snd (RpcSync example_env ''localhost'' ''user'' ''secret'' [] example_lw))) = Some 0"
proof -
  have s: "fst (SpvSync example_env [] example_lw) = None"
    by (simp add: example_SpvSync)
  have r: "fst (RpcSync example_env ''localhost'' ''user'' ''secret'' [] example_lw) = None"
    by (simp add: RpcSync_def connectToRpcClient_def contextWithShutdownCancel_def getLoaded_cases
        example_lw_def example_env_def example_wallet_def Let_def)
  have n: "nextCtx example_lw = 0"
    by (simp add: example_lw_def)
  show ?thesis
    using s r n
      cancel_handle_kept_after_terminal_outcome [where lw = example_lw and env = example_env
        and peerAddresses = "[]" and err = "Some context_Canceled"]
      cancel_handle_kept_after_terminal_outcome [where lw = example_lw and env = example_env
        and a = "''localhost''" and u = "''user''" and p = "''secret''" and cert = "[]"
        and err = None]
    by simp
qed

text \<open>
  C9, as stated: after a successful \<open>SpvSync\<close> the handle is not nil once the run loop
  has returned, be it cleanly, canceled, with the deadline exceeded or with another error.
\<close>

theorem cancel_handle_cleared_counterexample:
  "cancelSync (SpvSync_goroutine None (snd (SpvSync example_env [] example_lw))) \<noteq> None
   \<and> cancelSync (SpvSync_goroutine (Some context_Canceled) (snd (SpvSync example_env [] example_lw))) \<noteq> None
   \<and> cancelSync (SpvSync_goroutine (Some context_DeadlineExceeded) (snd (SpvSync example_env [] example_lw))) \<noteq> None
   \<and> cancelSync (SpvSync_goroutine (Some (foreign ''peer error'')) (snd (SpvSync example_env [] example_lw))) \<noteq> None"
  by (simp add: example_SpvSync SpvSync_goroutine_def)

section \<open>The cached RPC client\<close>

text \<open>
  C10. While an RPC client is cached, \<open>connectToRpcClient\<close> returns it and changes
  nothing, whatever the address, user name, password and certificate. \<open>RpcSync\<close> then
  succeeds whenever its guard lets it through, with the backend made from the cached
  client; it never returns \<open>ErrInvalidAddress\<close>, \<open>ErrInvalidAuth\<close>, \<open>ErrInvalid\<close>,
  \<open>ErrContextCanceled\<close> or \<open>ErrUnavailable\<close>; and its result does not depend on the
  arguments or on what the address normaliser, the client constructor and the server
  would answer.
\<close>

theorem RpcSync_cached_client:
  assumes "rpcClient lw = Some c"
  shows "connectToRpcClient env ctx networkAddress username password cert lw = (Inr c, lw)
       \<and> (getLoadedWalletForSyncing lw = Inr r \<longrightarrow>
            fst (RpcSync env networkAddress username password cert lw) = None
          \<and> attached r (snd (RpcSync env networkAddress username password cert lw))
              = (Some (BackendFromRPCClient c), Some (BackendFromRPCClient c))
          \<and> rpcClient (snd (RpcSync env networkAddress username password cert lw)) = Some c
          \<and> launched (snd (RpcSync env networkAddress username password cert lw))
              = launched lw @ [RpcRunTask c (nextCtx lw)])
       \<and> fst (RpcSync env networkAddress username password cert lw)
            \<notin> {Some (errors_New ErrInvalidAddress), Some (errors_New ErrInvalidAuth),
                Some (errors_New ErrInvalid), Some (errors_New ErrContextCanceled),
                Some (errors_New ErrUnavailable)}
       \<and> RpcSync env networkAddress username password cert lw = RpcSync env' a' u' p' cert' lw"
proof -
  have c: "connectToRpcClient e x a u p ce lw' = (Inr c, lw')" if "rpcClient lw' = Some c"
    for e x a u p ce lw'
    using that by (simp add: connectToRpcClient_def)
  have same: "RpcSync env networkAddress username password cert lw = RpcSync env' a' u' p' cert' lw"
    using assms
    by (cases "getLoadedWalletForSyncing lw") (simp_all add: RpcSync_def contextWithShutdownCancel_def c)
  have ok: "fst (RpcSync env networkAddress username password cert lw) = None
          \<and> attached r (snd (RpcSync env networkAddress username password cert lw))
              = (Some (BackendFromRPCClient c), Some (BackendFromRPCClient c))
          \<and> rpcClient (snd (RpcSync env networkAddress username password cert lw)) = Some c
          \<and> launched (snd (RpcSync env networkAddress username password cert lw))
              = launched lw @ [RpcRunTask c (nextCtx lw)]"
    if "getLoadedWalletForSyncing lw = Inr r"
    using that assms
    by (simp add: RpcSync_def contextWithShutdownCancel_def c attached_def attachBackend_def
          wallet_SetNetworkBackend_def loader_SetNetworkBackend_def Let_def)
  have never: "fst (RpcSync env networkAddress username password cert lw)
            \<notin> {Some (errors_New ErrInvalidAddress), Some (errors_New ErrInvalidAuth),
                Some (errors_New ErrInvalid), Some (errors_New ErrContextCanceled),
                Some (errors_New ErrUnavailable)}"
  proof (cases "getLoadedWalletForSyncing lw")
    case (Inl e)
    then have "e = errors_New ErrWalletNotLoaded \<or> e = errors_New ErrSyncAlreadyInProgress"
      by (auto simp: getLoaded_cases split: option.splits)
    with Inl show ?thesis by (auto simp: RpcSync_guard_fails)
  next
    case (Inr r')
    then have "fst (RpcSync env networkAddress username password cert lw) = None"
      using assms
      by (simp add: RpcSync_def contextWithShutdownCancel_def c Let_def)
    then show ?thesis by simp
  qed
  from c [OF assms] same ok never show ?thesis by blast
qed


theorem RpcSync_cached_client_witness:
  "rpcClient (example_lw\<lparr>rpcClient := Some (RPCClient ''h:9109'' ''user'' ''secret'' [] True)\<rparr>)
     = Some (RPCClient ''h:9109'' ''user'' ''secret'' [] True)
   \<and> isl (NormalizeAddress example_env ''a b'' ''9109'')
   \<and> getLoadedWalletForSyncing
         (example_lw\<lparr>rpcClient := Some (RPCClient ''h:9109'' ''user'' ''secret'' [] True)\<rparr>) = Inr 0
   \<and> fst (RpcSync example_env ''a b'' ''nobody'' ''wrong'' [1]
         (example_lw\<lparr>rpcClient := Some (RPCClient ''h:9109'' ''user'' ''secret'' [] True)\<rparr>)) = None
   \<and> attached 0 (snd (RpcSync example_env ''a b'' ''nobody'' ''wrong'' [1]
         (example_lw\<lparr>rpcClient := Some (RPCClient ''h:9109'' ''user'' ''secret'' [] True)\<rparr>)))
       = (Some (BackendFromRPCClient (RPCClient ''h:9109'' ''user'' ''secret'' [] True)),
          Some (BackendFromRPCClient (RPCClient ''h:9109'' ''user'' ''secret'' [] True)))"
proof -
  let ?c = "RPCClient ''h:9109'' ''user'' ''secret'' [] True"
  let ?lw = "example_lw\<lparr>rpcClient := Some ?c\<rparr>"
  have h: "rpcClient ?lw = Some ?c"
    by simp
  have g: "getLoadedWalletForSyncing ?lw = Inr 0"
    by (simp add: getLoaded_cases example_lw_def example_wallet_def)
  have b: "isl (NormalizeAddress example_env ''a b'' ''9109'')"
    by (simp add: example_env_def)
  show ?thesis
    using RpcSync_cached_client [OF h, where env = example_env and networkAddress = "''a b''"
        and username = "''nobody''" and password = "''wrong''" and cert = "[1]" and r = 0] g b
    by simp
qed


end
